theory Spec2Isabelle
  imports Main "HOL-Library.Word"
begin

section \<open>Python values used by app.py\<close>

text \<open>
  A Python \<open>str\<close> is a sequence of Unicode code points, so it is modelled as a list of
  natural numbers; \<open>py\<close> turns an ASCII literal of the source into such a list.
\<close>

type_synonym pystr = "nat list"

definition py :: "string \<Rightarrow> pystr" where
  "py s = map of_char s"

text \<open>
  \<open>str.strip()\<close> without an argument removes the characters for which CPython's
  \<open>Py_UNICODE_ISSPACE\<close> holds, from both ends.
\<close>

definition isspace :: "nat \<Rightarrow> bool" where
  "isspace c \<longleftrightarrow>
     (9 \<le> c \<and> c \<le> 13) \<or> (28 \<le> c \<and> c \<le> 32) \<or> c = 133 \<or> c = 160 \<or> c = 5760 \<or>
     (8192 \<le> c \<and> c \<le> 8202) \<or> c = 8232 \<or> c = 8233 \<or> c = 8239 \<or> c = 8287 \<or> c = 12288"

definition strip :: "pystr \<Rightarrow> pystr" where
  "strip s = rev (dropWhile isspace (rev (dropWhile isspace s)))"

definition startswith :: "pystr \<Rightarrow> pystr \<Rightarrow> bool" where
  "startswith s p \<longleftrightarrow> take (length p) s = p"

text \<open>The literals, lists and dicts that make up the options handed to yt-dlp.
  A dict keeps its items in the order the source writes them.\<close>

datatype pyval =
    PyNone
  | PyBool bool
  | PyInt int
  | PyStr pystr
  | PyList "pyval list"
  | PyDict "(pystr \<times> pyval) list"


text \<open>An exception is identified by its class, for the classes that the library calls of
  the source raise, and by the text \<open>str(e)\<close>. \<open>Exception\<close> stands for an instance of any
  other subclass of Python's \<open>Exception\<close>; all four are what \<open>except Exception\<close>
  catches.\<close>

datatype exn = ValueError pystr | OverflowError pystr | OSError pystr | Exception pystr

fun str_exn :: "exn \<Rightarrow> pystr" where
  "str_exn (ValueError m) = m"
| "str_exn (OverflowError m) = m"
| "str_exn (OSError m) = m"
| "str_exn (Exception m) = m"

section \<open>Paths\<close>

text \<open>
  A \<open>pathlib.Path\<close> is the list of its parts. \<open>BASE_TEMP = Path("./downloads_temp")\<close>
  has the single part \<open>downloads_temp\<close>; \<open>p / name\<close> appends a part (every right operand
  in the source is a single relative part: a UUID hex, the output template, a directory
  entry's name); \<open>str(p)\<close> joins the parts with slashes.
\<close>

type_synonym path = "pystr list"

definition BASE_TEMP :: path where
  "BASE_TEMP = [py ''downloads_temp'']"

definition joinpath :: "path \<Rightarrow> pystr \<Rightarrow> path" where
  "joinpath p part = p @ [part]"

fun str_path :: "path \<Rightarrow> pystr" where
  "str_path [] = py ''.''"
| "str_path [a] = a"
| "str_path (a # b # r) = a @ py ''/'' @ str_path (b # r)"

section \<open>UUIDs\<close>

text \<open>
  \<open>uuid.uuid4()\<close> yields a UUID object whose \<open>int\<close> is a 128-bit number; \<open>.hex\<close> is
  \<open>'%032x' % self.int\<close>: 32 lowercase hexadecimal digits, most significant first.
\<close>

definition hex_digit :: "nat \<Rightarrow> nat" where
  "hex_digit d = (if d < 10 then 48 + d else 87 + d)"

fun hex_digits :: "nat \<Rightarrow> nat \<Rightarrow> pystr" where
  "hex_digits 0 v = []"
| "hex_digits (Suc n) v = hex_digits n (v div 16) @ [hex_digit (v mod 16)]"

definition uuid_hex :: "128 word \<Rightarrow> pystr" where
  "uuid_hex u = hex_digits 32 (unat u)"

section \<open>The request handler\<close>

text \<open>
  What one call of \<open>download()\<close> gets from outside:
  \<^item> \<open>form\<close>: \<open>request.form\<close>, the submitted fields;
  \<^item> \<open>uuid4\<close>: the integer of the UUID that \<open>uuid.uuid4()\<close> returns to this call;
  \<^item> \<open>extract_info\<close>: the extraction tool, opaque. Given the options and the URL,
    \<open>with yt_dlp.YoutubeDL(ydl_opts) as ydl: ydl.extract_info(url, download=True)\<close>
    either raises (\<open>Inl\<close>) or completes (\<open>Inr\<close>), leaving the work directory with the
    entries that \<open>workdir.glob("*")\<close> then yields, in that order;
  \<^item> \<open>send_file_raises\<close>: Flask's \<open>send_file\<close> stats and opens the file it is given;
    for a path it cannot open it raises the exception given here.

  A directory entry is its name and, when \<open>p.exists()\<close> is true, its \<open>st_size\<close>.
  \<open>flash\<close>, \<open>redirect\<close>, \<open>url_for\<close>, \<open>mkdir(parents=True, exist_ok=True)\<close> and the
  start of a thread are taken to succeed.
\<close>

record dirent =
  ent_name :: pystr
  ent_size :: "nat option"

record env =
  form :: "pystr \<rightharpoonup> pystr"
  uuid4 :: "128 word"
  extract_info :: "pyval \<Rightarrow> pystr \<Rightarrow> exn + dirent list"
  send_file_raises :: "pystr \<Rightarrow> exn option"

text \<open>The handler's result is the response it returns and the effects it had, in order.
  \<open>Mkdir p\<close> is \<open>p.mkdir(parents=True, exist_ok=True)\<close>, which creates the directory
  unless it is there already. \<open>ThreadStart p d\<close> is
  \<open>threading.Thread(target=cleanup_path, args=(p, d), daemon=True).start()\<close>.\<close>

datatype response =
    Redirect pystr
  | Attachment pystr pystr

datatype effect =
    Flash pystr
  | Mkdir path
  | ExtractInfo pyval pystr
  | ThreadStart path int
  | SendFile pystr pystr

definition send_file :: "env \<Rightarrow> pystr \<Rightarrow> pystr \<Rightarrow> exn + response" where
  "send_file e p download_name =
     (case send_file_raises e p of
        Some x \<Rightarrow> Inl x
      | None \<Rightarrow> Inr (Attachment p download_name))"

definition ydl_opts :: "pystr \<Rightarrow> pystr \<Rightarrow> pyval" where
  "ydl_opts kind outtmpl =
     (if kind = py ''audio'' then
        PyDict [
          (py ''format'', PyStr (py ''bestaudio/best'')),
          (py ''outtmpl'', PyStr outtmpl),
          (py ''noplaylist'', PyBool True),
          (py ''quiet'', PyBool True),
          (py ''concurrent_fragment_downloads'', PyInt 5),
          (py ''postprocessors'', PyList [PyDict [
             (py ''key'', PyStr (py ''FFmpegExtractAudio'')),
             (py ''preferredcodec'', PyStr (py ''mp3'')),
             (py ''preferredquality'', PyStr (py ''128''))]]),
          (py ''prefer_ffmpeg'', PyBool True)]
      else
        PyDict [
          (py ''format'', PyStr (py ''best[ext=mp4]/best'')),
          (py ''outtmpl'', PyStr outtmpl),
          (py ''noplaylist'', PyBool True),
          (py ''quiet'', PyBool True),
          (py ''concurrent_fragment_downloads'', PyInt 5),
          (py ''merge_output_format'', PyNone),
          (py ''prefer_ffmpeg'', PyBool True)])"

text \<open>\<open>sorted(xs, key=k, reverse=True)\<close>: descending by key and stable, which CPython gets
  by reversing, sorting stably in ascending order and reversing again.\<close>

definition sorted_reverse :: "('a \<Rightarrow> nat) \<Rightarrow> 'a list \<Rightarrow> 'a list" where
  "sorted_reverse k xs = rev (sort_key k (rev xs))"

text \<open>\<open>lambda p: p.stat().st_size if p.exists() else 0\<close>\<close>

definition size_key :: "dirent \<Rightarrow> nat" where
  "size_key p = (case ent_size p of Some n \<Rightarrow> n | None \<Rightarrow> 0)"

text \<open>The body of the \<open>try\<close> statement: \<open>Inl\<close> when an exception leaves it.\<close>

definition try_body :: "env \<Rightarrow> pystr \<Rightarrow> pystr \<Rightarrow> path \<Rightarrow> (exn + response) \<times> effect list" where
  "try_body e url kind workdir =
     (let outtmpl = str_path (joinpath workdir (py ''%(title).100s.%(ext)s''));
          opts = ydl_opts kind outtmpl
      in case extract_info e opts url of
           Inl x \<Rightarrow> (Inl x, [ExtractInfo opts url])
         | Inr listing \<Rightarrow>
             (case sorted_reverse size_key listing of
                [] \<Rightarrow>
                  (Inr (Redirect (py ''index'')),
                   [ExtractInfo opts url,
                    Flash (py ''Download completed but file not found.''),
                    ThreadStart workdir 5])
              | outfile # rest \<Rightarrow>
                  (let p = str_path (joinpath workdir (ent_name outfile))
                   in (send_file e p (ent_name outfile),
                       [ExtractInfo opts url,
                        ThreadStart workdir 30,
                        SendFile p (ent_name outfile)]))))"

text \<open>Lines 82 and 83: the two form fields the handler reads.\<close>

definition request_url :: "env \<Rightarrow> pystr" where
  "request_url e = strip (case form e (py ''url'') of None \<Rightarrow> [] | Some u \<Rightarrow> u)"

definition request_kind :: "env \<Rightarrow> pystr" where
  "request_kind e = (case form e (py ''kind'') of None \<Rightarrow> py ''video'' | Some k \<Rightarrow> k)"

text \<open>Lines 90 and 91: \<open>BASE_TEMP / uuid.uuid4().hex\<close>.\<close>

definition request_workdir :: "env \<Rightarrow> path" where
  "request_workdir e = joinpath BASE_TEMP (uuid_hex (uuid4 e))"

definition download :: "env \<Rightarrow> response \<times> effect list" where
  "download e =
     (let url = request_url e;
          kind = request_kind e
      in if url = [] \<or> \<not> (startswith url (py ''http://'') \<or> startswith url (py ''https://''))
         then (Redirect (py ''index''), [Flash (py ''Please enter a valid URL'')])
         else
           (let workdir = request_workdir e
            in case try_body e url kind workdir of
                 (Inr r, effs) \<Rightarrow> (r, Mkdir workdir # effs)
               | (Inl x, effs) \<Rightarrow>
                   (Redirect (py ''index''),
                    Mkdir workdir # effs @
                    [Flash (py ''Error: '' @ str_exn x), ThreadStart workdir 5])))"

section \<open>Deferred deletion\<close>

text \<open>
  \<open>cleanup_path\<close> runs in a thread of its own, against a filesystem: a map from paths to
  regular files (with their size) and directories. Its parameters besides the source's:
  \<^item> \<open>limit\<close>: the longest sleep, in seconds, that the operating system accepts at that
    moment (on Linux the deadline, the monotonic clock plus the delay, has to fit the
    kernel's time type; beyond it the system call fails with \<open>EINVAL\<close>);
  \<^item> \<open>meanwhile\<close>: what the rest of the system did to the filesystem during the sleep;
  \<^item> a \<open>fault\<close>: which of the filesystem calls fails with an \<open>OSError\<close>, if one does.
    \<open>Path.exists()\<close> (CPython 3.11) answers False for a path that is not there and raises
    for the errors it does not ignore, such as a name that is too long or a directory
    that may not be searched. A failing \<open>shutil.rmtree\<close> has removed part of the tree
    already: \<open>RmtreeFails gone\<close> names the paths that were removed before the error.
    Nothing reads the text of these errors.
\<close>

datatype node = File nat | Dir

type_synonym filesystem = "path \<rightharpoonup> node"

record world =
  files :: filesystem
  now :: int

datatype fault = NoFault | ExistsFails | IsFileFails | UnlinkFails | RmtreeFails "path set"

text \<open>
  \<open>time.sleep(secs)\<close> for an \<open>int\<close>, giving the exception it raises, if any. CPython
  converts the delay to a signed 64-bit count of nanoseconds first, which raises
  \<open>OverflowError\<close> beyond 9223372036 seconds either way; a negative delay then raises
  \<open>ValueError\<close>; a delay that the operating system refuses raises \<open>OSError\<close>.
\<close>

definition time_sleep :: "int \<Rightarrow> int \<Rightarrow> exn option" where
  "time_sleep limit secs =
     (if secs < - 9223372036 \<or> 9223372036 < secs
      then Some (OverflowError (py ''timestamp too large to convert to C _PyTime_t''))
      else if secs < 0
      then Some (ValueError (py ''sleep length must be non-negative''))
      else if limit < secs
      then Some (OSError (py ''[Errno 22] Invalid argument''))
      else None)"

definition is_under :: "path \<Rightarrow> path \<Rightarrow> bool" where
  "is_under d q \<longleftrightarrow> take (length d) q = d"

definition path_exists :: "fault \<Rightarrow> filesystem \<Rightarrow> path \<Rightarrow> exn + bool" where
  "path_exists flt fs p =
     (if flt = ExistsFails then Inl (OSError (py ''exists''))
      else Inr (fs p \<noteq> None))"

definition is_file :: "fault \<Rightarrow> filesystem \<Rightarrow> path \<Rightarrow> exn + bool" where
  "is_file flt fs p =
     (if flt = IsFileFails then Inl (OSError (py ''is_file''))
      else Inr (case fs p of Some (File n) \<Rightarrow> True | _ \<Rightarrow> False))"

text \<open>A statement that changes the filesystem returns the exception it raised, if any,
  and the filesystem it left.\<close>

definition unlink :: "fault \<Rightarrow> filesystem \<Rightarrow> path \<Rightarrow> exn option \<times> filesystem" where
  "unlink flt fs p =
     (if flt = UnlinkFails then (Some (OSError (py ''unlink'')), fs)
      else case fs p of
             Some (File n) \<Rightarrow> (None, fs(p := None))
           | _ \<Rightarrow> (Some (OSError (py ''unlink'')), fs))"

definition rmtree :: "fault \<Rightarrow> filesystem \<Rightarrow> path \<Rightarrow> exn option \<times> filesystem" where
  "rmtree flt fs p =
     (case flt of
        RmtreeFails gone \<Rightarrow>
          (Some (OSError (py ''rmtree'')),
           (\<lambda>q. if is_under p q \<and> q \<in> gone then None else fs q))
      | _ \<Rightarrow>
          (case fs p of
             Some Dir \<Rightarrow> (None, (\<lambda>q. if is_under p q then None else fs q))
           | _ \<Rightarrow> (Some (OSError (py ''rmtree'')), fs)))"

text \<open>
  The sleep (line 66) and \<open>path.exists()\<close> (line 67) are outside the \<open>try\<close> statement: an
  exception of theirs leaves \<open>cleanup_path\<close> (\<open>Inl\<close>). What \<open>is_file\<close>, \<open>unlink\<close> and
  \<open>rmtree\<close> raise is swallowed by the bare \<open>except\<close>.
\<close>

definition cleanup_path ::
    "int \<Rightarrow> fault \<Rightarrow> (filesystem \<Rightarrow> filesystem) \<Rightarrow> path \<Rightarrow> int \<Rightarrow> world \<Rightarrow> exn + world" where
  "cleanup_path limit flt meanwhile path wait_seconds w =
     (case time_sleep limit wait_seconds of
        Some x \<Rightarrow> Inl x
      | None \<Rightarrow>
          (let fs = meanwhile (files w);
               t = now w + wait_seconds
           in case path_exists flt fs path of
                Inl x \<Rightarrow> Inl x
              | Inr False \<Rightarrow> Inr \<lparr>files = fs, now = t\<rparr>
              | Inr True \<Rightarrow>
                  (case is_file flt fs path of
                     Inl x \<Rightarrow> Inr \<lparr>files = fs, now = t\<rparr>
                   | Inr True \<Rightarrow> Inr \<lparr>files = snd (unlink flt fs path), now = t\<rparr>
                   | Inr False \<Rightarrow> Inr \<lparr>files = snd (rmtree flt fs path), now = t\<rparr>)))"

section \<open>Reading a run of the handler\<close>

text \<open>The options of each call of the extraction tool, and the deletions scheduled, in
  the order of the effects.\<close>

fun options_passed :: "effect list \<Rightarrow> pyval list" where
  "options_passed [] = []"
| "options_passed (ExtractInfo opts url # es) = opts # options_passed es"
| "options_passed (_ # es) = options_passed es"

fun scheduled :: "effect list \<Rightarrow> (path \<times> int) list" where
  "scheduled [] = []"
| "scheduled (ThreadStart p d # es) = (p, d) # scheduled es"
| "scheduled (_ # es) = scheduled es"

text \<open>The output template of a work directory (line 95).\<close>

definition outtmpl_in :: "path \<Rightarrow> pystr" where
  "outtmpl_in workdir = str_path (joinpath workdir (py ''%(title).100s.%(ext)s''))"

text \<open>The condition of line 85, negated: the request goes on to the download.\<close>

definition url_accepted :: "env \<Rightarrow> bool" where
  "url_accepted e \<longleftrightarrow>
     request_url e \<noteq> [] \<and>
     (startswith (request_url e) (py ''http://'') \<or> startswith (request_url e) (py ''https://''))"

section \<open>Example requests\<close>

text \<open>A request for the audio of a page, whose download leaves three entries in the
  work directory, the last of them a dangling link.\<close>

definition listing_ok :: "dirent list" where
  "listing_ok =
     [\<lparr>ent_name = py ''cover.jpg'', ent_size = Some 120\<rparr>,
      \<lparr>ent_name = py ''song.mp3'', ent_size = Some 700\<rparr>,
      \<lparr>ent_name = py ''song.webm'', ent_size = None\<rparr>]"

definition env_ok :: env where
  "env_ok =
     \<lparr>form = [py ''url'' \<mapsto> py '' https://example.com/v '', py ''kind'' \<mapsto> py ''audio''],
      uuid4 = 0x1234abcd,
      extract_info = (\<lambda>opts url. Inr listing_ok),
      send_file_raises = (\<lambda>p. None)\<rparr>"

text \<open>Its work directory.\<close>

definition workdir_ok :: path where
  "workdir_ok = [py ''downloads_temp'', py ''0000000000000000000000001234abcd'']"

text \<open>A request with the same format choice and UUID for another URL, on which the
  extraction tool raises.\<close>

definition env_other :: env where
  "env_other =
     env_ok\<lparr>form := [py ''url'' \<mapsto> py ''http://other.example/watch?v=1'',
                       py ''kind'' \<mapsto> py ''audio''],
               extract_info := (\<lambda>opts url. Inl (Exception (py ''Unsupported URL'')))\<rparr>"

text \<open>The first request again, with a \<open>send_file\<close> that does not find the file (as when
  the process's working directory is not the application's root path, against which Flask
  resolves a relative path).\<close>

definition env_unservable :: env where
  "env_unservable =
     env_ok\<lparr>send_file_raises :=
       (\<lambda>p. Some (Exception (py ''[Errno 2] No such file or directory'')))\<rparr>"

text \<open>The filesystem after the first request's download, at time 0.\<close>

definition world_ok :: world where
  "world_ok =
     \<lparr>files = [BASE_TEMP \<mapsto> Dir,
               workdir_ok \<mapsto> Dir,
               joinpath workdir_ok (py ''song.mp3'') \<mapsto> File 700],
      now = 0\<rparr>"

section \<open>Facts about the library functions\<close>

lemma hex_digits_numeral:
  "hex_digits (numeral k) v = hex_digits (pred_numeral k) (v div 16) @ [hex_digit (v mod 16)]"
proof -
  have "hex_digits (Suc (pred_numeral k)) v =
          hex_digits (pred_numeral k) (v div 16) @ [hex_digit (v mod 16)]"
    by (rule hex_digits.simps)
  moreover have "numeral k = Suc (pred_numeral k)"
    by (rule numeral_eq_Suc)
  ultimately show ?thesis
    by (simp only:)
qed






lemma set_sorted_reverse: "set (sorted_reverse k xs) = set xs"
  by (simp add: sorted_reverse_def)

lemma length_sorted_reverse: "length (sorted_reverse k xs) = length xs"
  by (simp add: sorted_reverse_def)

lemma sorted_reverse_Nil_iff: "sorted_reverse k xs = [] \<longleftrightarrow> xs = []"
  using length_sorted_reverse [of k xs] by (metis length_0_conv)

lemma descending_sorted_reverse: "sorted (rev (map k (sorted_reverse k xs)))"
  by (simp add: sorted_reverse_def rev_map)

lemma sorted_last_max:
  "sorted (map k ys) \<Longrightarrow> x \<in> set ys \<Longrightarrow> k x \<le> k (last ys)"
proof (induction ys)
  case Nil
  then show ?case by simp
next
  case (Cons y ys)
  then show ?case by (cases "ys = []") auto
qed

lemma hd_sorted_reverse_max:
  assumes "x \<in> set xs"
  shows "k x \<le> k (hd (sorted_reverse k xs))"
proof -
  let ?ys = "sort_key k (rev xs)"
  have ne: "?ys \<noteq> []"
    using assms by (metis empty_iff empty_set set_rev set_sort)
  have "x \<in> set ?ys"
    using assms by simp
  then have "k x \<le> k (last ?ys)"
    by (intro sorted_last_max) simp_all
  then show ?thesis
    using ne by (simp add: sorted_reverse_def hd_rev)
qed


section \<open>The paths through the handler\<close>

lemmas handler_defs =
  download_def try_body_def request_url_def request_kind_def request_workdir_def
  url_accepted_def outtmpl_in_def send_file_def ydl_opts_def sorted_reverse_def size_key_def
  strip_def startswith_def isspace_def py_def BASE_TEMP_def joinpath_def
  uuid_hex_def hex_digit_def hex_digits_numeral

lemma download_accepted:
  assumes "url_accepted e"
  shows "download e =
     (case try_body e (request_url e) (request_kind e) (request_workdir e) of
        (Inr r, effs) \<Rightarrow> (r, Mkdir (request_workdir e) # effs)
      | (Inl x, effs) \<Rightarrow>
          (Redirect (py ''index''),
           Mkdir (request_workdir e) # effs @
           [Flash (py ''Error: '' @ str_exn x), ThreadStart (request_workdir e) 5]))"
  using assms by (auto simp: download_def url_accepted_def Let_def)

lemma download_not_accepted:
  assumes "\<not> url_accepted e"
  shows "download e = (Redirect (py ''index''), [Flash (py ''Please enter a valid URL'')])"
  using assms by (auto simp: download_def url_accepted_def Let_def)

lemma try_body_raises:
  assumes "extract_info e (ydl_opts kind (outtmpl_in workdir)) url = Inl x"
  shows "try_body e url kind workdir = (Inl x, [ExtractInfo (ydl_opts kind (outtmpl_in workdir)) url])"
  using assms by (simp add: try_body_def outtmpl_in_def Let_def)

lemma try_body_empty:
  assumes "extract_info e (ydl_opts kind (outtmpl_in workdir)) url = Inr []"
  shows "try_body e url kind workdir =
     (Inr (Redirect (py ''index'')),
      [ExtractInfo (ydl_opts kind (outtmpl_in workdir)) url,
       Flash (py ''Download completed but file not found.''),
       ThreadStart workdir 5])"
  using assms by (simp add: try_body_def outtmpl_in_def Let_def sorted_reverse_def)

lemma try_body_files:
  assumes "extract_info e (ydl_opts kind (outtmpl_in workdir)) url = Inr listing"
    and "listing \<noteq> []"
  shows "try_body e url kind workdir =
     (send_file e (str_path (joinpath workdir (ent_name (hd (sorted_reverse size_key listing)))))
        (ent_name (hd (sorted_reverse size_key listing))),
      [ExtractInfo (ydl_opts kind (outtmpl_in workdir)) url,
       ThreadStart workdir 30,
       SendFile (str_path (joinpath workdir (ent_name (hd (sorted_reverse size_key listing)))))
         (ent_name (hd (sorted_reverse size_key listing)))])"
proof -
  obtain outfile rest where "sorted_reverse size_key listing = outfile # rest"
    using assms(2) sorted_reverse_Nil_iff [of size_key listing] by (meson neq_Nil_conv)
  then show ?thesis
    using assms(1) by (simp add: try_body_def outtmpl_in_def Let_def)
qed

lemma options_passed_append:
  "options_passed (xs @ ys) = options_passed xs @ options_passed ys"
  by (induction xs rule: options_passed.induct) simp_all

lemma scheduled_append: "scheduled (xs @ ys) = scheduled xs @ scheduled ys"
  by (induction xs rule: scheduled.induct) simp_all

lemma options_passed_try_body:
  "options_passed (snd (try_body e url kind workdir)) = [ydl_opts kind (outtmpl_in workdir)]"
  by (simp add: try_body_def outtmpl_in_def Let_def split: sum.splits list.splits)

lemma no_Mkdir_try_body: "Mkdir p \<notin> set (snd (try_body e url kind workdir))"
  by (simp add: try_body_def Let_def split: sum.splits list.splits)


lemma options_passed_download:
  assumes "url_accepted e"
  shows "options_passed (snd (download e)) =
           [ydl_opts (request_kind e) (outtmpl_in (request_workdir e))]"
proof (cases "try_body e (request_url e) (request_kind e) (request_workdir e)")
  case (Pair res effs)
  then have "options_passed effs = [ydl_opts (request_kind e) (outtmpl_in (request_workdir e))]"
    using options_passed_try_body [of e "request_url e" "request_kind e" "request_workdir e"]
    by simp
  then show ?thesis
    using Pair by (cases res) (simp_all add: download_accepted [OF assms] options_passed_append)
qed

lemma Mkdir_download:
  assumes "Mkdir wd \<in> set (snd (download e))"
  shows "url_accepted e \<and> wd = request_workdir e"
proof (cases "url_accepted e")
  case False
  then show ?thesis
    using assms by (simp add: download_not_accepted)
next
  case True
  obtain res effs where tb: "try_body e (request_url e) (request_kind e) (request_workdir e) = (res, effs)"
    by (cases "try_body e (request_url e) (request_kind e) (request_workdir e)")
  then have "Mkdir wd \<notin> set effs"
    using no_Mkdir_try_body [of wd e "request_url e" "request_kind e" "request_workdir e"]
    by simp
  then show ?thesis
    using assms True tb by (cases res) (auto simp: download_accepted [OF True])
qed

lemma scheduled_download:
  assumes "url_accepted e"
  shows "scheduled (snd (download e)) =
     (case extract_info e (ydl_opts (request_kind e) (outtmpl_in (request_workdir e))) (request_url e) of
        Inl x \<Rightarrow> [(request_workdir e, 5)]
      | Inr listing \<Rightarrow>
          (if listing = [] then [(request_workdir e, 5)]
           else case send_file_raises e
                  (str_path (joinpath (request_workdir e)
                     (ent_name (hd (sorted_reverse size_key listing))))) of
                  None \<Rightarrow> [(request_workdir e, 30)]
                | Some x \<Rightarrow> [(request_workdir e, 30), (request_workdir e, 5)]))"
proof (cases "extract_info e (ydl_opts (request_kind e) (outtmpl_in (request_workdir e))) (request_url e)")
  case (Inl x)
  then show ?thesis
    by (simp add: download_accepted [OF assms] try_body_raises)
next
  case (Inr listing)
  show ?thesis
  proof (cases "listing = []")
    case True
    then show ?thesis
      using Inr by (simp add: download_accepted [OF assms] try_body_empty)
  next
    case False
    then show ?thesis
      using Inr
      by (simp add: download_accepted [OF assms] try_body_files send_file_def split: option.splits)
  qed
qed

lemma attachment_download:
  assumes "url_accepted e" and "fst (download e) = Attachment p n"
  shows "\<exists>listing. extract_info e (ydl_opts (request_kind e) (outtmpl_in (request_workdir e))) (request_url e) = Inr listing \<and>
           listing \<noteq> [] \<and>
           send_file_raises e (str_path (joinpath (request_workdir e)
                     (ent_name (hd (sorted_reverse size_key listing))))) = None"
proof (cases "extract_info e (ydl_opts (request_kind e) (outtmpl_in (request_workdir e))) (request_url e)")
  case (Inl x)
  then show ?thesis
    using assms(2) by (simp add: download_accepted [OF assms(1)] try_body_raises)
next
  case (Inr listing)
  show ?thesis
  proof (cases "listing = []")
    case True
    then show ?thesis
      using Inr assms(2) by (simp add: download_accepted [OF assms(1)] try_body_empty)
  next
    case False
    then show ?thesis
      using Inr assms(2)
      by (simp add: download_accepted [OF assms(1)] try_body_files send_file_def split: option.splits)
  qed
qed

lemma scheduled_download_shape:
  assumes "url_accepted e"
  shows "scheduled (snd (download e)) = [(request_workdir e, 5)] \<or>
         scheduled (snd (download e)) = [(request_workdir e, 30)] \<or>
         scheduled (snd (download e)) = [(request_workdir e, 30), (request_workdir e, 5)]"
proof (cases "extract_info e (ydl_opts (request_kind e) (outtmpl_in (request_workdir e))) (request_url e)")
  case (Inl x)
  then show ?thesis
    by (simp add: scheduled_download [OF assms])
next
  case (Inr listing)
  show ?thesis
  proof (cases "listing = []")
    case True
    then show ?thesis
      using Inr by (simp add: scheduled_download [OF assms])
  next
    case False
    then show ?thesis
      using Inr by (cases "send_file_raises e (str_path (joinpath (request_workdir e)
                     (ent_name (hd (sorted_reverse size_key listing)))))")
        (simp_all add: scheduled_download [OF assms])
  qed
qed

lemma scheduled_served:
  assumes "url_accepted e" and "fst (download e) = Attachment p n"
  shows "scheduled (snd (download e)) = [(request_workdir e, 30)]"
proof -
  obtain listing where
    "extract_info e (ydl_opts (request_kind e) (outtmpl_in (request_workdir e))) (request_url e) = Inr listing"
    "listing \<noteq> []"
    "send_file_raises e (str_path (joinpath (request_workdir e)
        (ent_name (hd (sorted_reverse size_key listing))))) = None"
    using attachment_download [OF assms] by blast
  then show ?thesis
    by (simp add: scheduled_download [OF assms(1)])
qed

lemma request_kind_audio:
  "request_kind e = py ''audio'' \<longleftrightarrow> form e (py ''kind'') = Some (py ''audio'')"
  by (cases "form e (py ''kind'')") (simp_all add: request_kind_def py_def)

section \<open>Properties of the handler\<close>

text \<open>
  Claim C8. A request whose \<open>url\<close> field, stripped of surrounding whitespace, is empty or
  starts with neither \<open>http://\<close> nor \<open>https://\<close> gets the message
  \<open>Please enter a valid URL\<close> and a redirect to the index page, and that is all the
  handler does: its only effect is the flash, so no work directory is created and the
  extraction tool is not invoked.
\<close>

theorem download_rejects_url:
  assumes "request_url e = [] \<or>
           \<not> (startswith (request_url e) (py ''http://'') \<or>
              startswith (request_url e) (py ''https://''))"
  shows "download e = (Redirect (py ''index''), [Flash (py ''Please enter a valid URL'')])"
  using assms by (intro download_not_accepted) (auto simp: url_accepted_def)

theorem download_rejects_url_witness:
  "\<not> startswith (request_url (env_ok\<lparr>form := [py ''url'' \<mapsto> py '' ftp://example.com/v'']\<rparr>)) (py ''http://'') \<and>
   \<not> startswith (request_url (env_ok\<lparr>form := [py ''url'' \<mapsto> py '' ftp://example.com/v'']\<rparr>)) (py ''https://'') \<and>
   download (env_ok\<lparr>form := [py ''url'' \<mapsto> py '' ftp://example.com/v'']\<rparr>) =
     (Redirect (py ''index''), [Flash (py ''Please enter a valid URL'')])"
  using download_rejects_url [of "env_ok\<lparr>form := [py ''url'' \<mapsto> py '' ftp://example.com/v'']\<rparr>"]
  by (simp add: request_url_def strip_def startswith_def isspace_def py_def env_ok_def)

text \<open>
  Claim C4. When the extraction tool raises an exception, the handler flashes
  \<open>Error: \<close> followed by the exception's text, starts the deletion of the work directory
  with a delay of 5 seconds and redirects to the index page. The effects are the four
  listed: \<open>send_file\<close> is not called and the response is no attachment.
\<close>

theorem download_tool_raises:
  assumes "url_accepted e"
    and "extract_info e (ydl_opts (request_kind e) (outtmpl_in (request_workdir e))) (request_url e) = Inl x"
  shows "download e =
     (Redirect (py ''index''),
      [Mkdir (request_workdir e),
       ExtractInfo (ydl_opts (request_kind e) (outtmpl_in (request_workdir e))) (request_url e),
       Flash (py ''Error: '' @ str_exn x),
       ThreadStart (request_workdir e) 5])"
  by (simp add: download_accepted [OF assms(1)] try_body_raises [OF assms(2)])

theorem download_tool_raises_witness:
  "url_accepted (env_ok\<lparr>extract_info := (\<lambda>opts url. Inl (Exception (py ''Unsupported URL'')))\<rparr>) \<and>
   download (env_ok\<lparr>extract_info := (\<lambda>opts url. Inl (Exception (py ''Unsupported URL'')))\<rparr>) =
     (Redirect (py ''index''),
      [Mkdir workdir_ok,
       ExtractInfo (ydl_opts (py ''audio'') (py ''downloads_temp/0000000000000000000000001234abcd/%(title).100s.%(ext)s''))
         (py ''https://example.com/v''),
       Flash (py ''Error: Unsupported URL''),
       ThreadStart workdir_ok 5])"
  using download_tool_raises [of "env_ok\<lparr>extract_info := (\<lambda>opts url. Inl (Exception (py ''Unsupported URL'')))\<rparr>"
      "Exception (py ''Unsupported URL'')"]
  by (simp add: handler_defs env_ok_def workdir_ok_def)

text \<open>
  Claim C9. When the extraction tool completes without raising and \<open>workdir.glob("*")\<close>
  yields nothing, the handler flashes \<open>Download completed but file not found.\<close>, starts
  the deletion of the work directory with a delay of 5 seconds and redirects to the index
  page; \<open>send_file\<close> is not called.
\<close>

theorem download_no_file:
  assumes "url_accepted e"
    and "extract_info e (ydl_opts (request_kind e) (outtmpl_in (request_workdir e))) (request_url e) = Inr []"
  shows "download e =
     (Redirect (py ''index''),
      [Mkdir (request_workdir e),
       ExtractInfo (ydl_opts (request_kind e) (outtmpl_in (request_workdir e))) (request_url e),
       Flash (py ''Download completed but file not found.''),
       ThreadStart (request_workdir e) 5])"
  by (simp add: download_accepted [OF assms(1)] try_body_empty [OF assms(2)])

theorem download_no_file_witness:
  "url_accepted (env_ok\<lparr>extract_info := (\<lambda>opts url. Inr [])\<rparr>) \<and>
   download (env_ok\<lparr>extract_info := (\<lambda>opts url. Inr [])\<rparr>) =
     (Redirect (py ''index''),
      [Mkdir workdir_ok,
       ExtractInfo (ydl_opts (py ''audio'') (py ''downloads_temp/0000000000000000000000001234abcd/%(title).100s.%(ext)s''))
         (py ''https://example.com/v''),
       Flash (py ''Download completed but file not found.''),
       ThreadStart workdir_ok 5])"
  using download_no_file [of "env_ok\<lparr>extract_info := (\<lambda>opts url. Inr [])\<rparr>"]
  by (simp add: handler_defs env_ok_def workdir_ok_def)

text \<open>
  Claim C1, as the code has it. When the extraction tool has run and left at least one
  entry in the work directory, the handler sorts the entries by size in decreasing order
  (\<open>files\<close> is a rearrangement of the listing with descending keys), takes the first one,
  which is an entry of the listing no smaller than any other, and hands it to \<open>send_file\<close>
  as an attachment under its own name. The response is that attachment when \<open>send_file\<close>
  returns one; when \<open>send_file\<close> raises, the handler flashes the error and redirects to the
  index page. The size of an entry for which \<open>exists()\<close> is false counts as 0.
\<close>

theorem download_serves_largest:
  assumes "url_accepted e"
    and "extract_info e (ydl_opts (request_kind e) (outtmpl_in (request_workdir e))) (request_url e) = Inr listing"
    and "listing \<noteq> []"
  shows "let files = sorted_reverse size_key listing;
             outfile = hd files;
             p = str_path (joinpath (request_workdir e) (ent_name outfile))
         in set files = set listing \<and> length files = length listing \<and>
            sorted (rev (map size_key files)) \<and>
            outfile \<in> set listing \<and>
            (\<forall>f \<in> set listing. size_key f \<le> size_key outfile) \<and>
            snd (download e) =
              [Mkdir (request_workdir e),
               ExtractInfo (ydl_opts (request_kind e) (outtmpl_in (request_workdir e))) (request_url e),
               ThreadStart (request_workdir e) 30,
               SendFile p (ent_name outfile)] @
              (case send_file_raises e p of
                 None \<Rightarrow> []
               | Some x \<Rightarrow> [Flash (py ''Error: '' @ str_exn x), ThreadStart (request_workdir e) 5]) \<and>
            (send_file_raises e p = None \<longrightarrow>
               fst (download e) = Attachment p (ent_name outfile)) \<and>
            (send_file_raises e p \<noteq> None \<longrightarrow>
               fst (download e) = Redirect (py ''index''))"
proof -
  have ne: "sorted_reverse size_key listing \<noteq> []"
    using assms(3) by (simp add: sorted_reverse_Nil_iff)
  then have "hd (sorted_reverse size_key listing) \<in> set (sorted_reverse size_key listing)"
    by (rule hd_in_set)
  then have mem: "hd (sorted_reverse size_key listing) \<in> set listing"
    by (simp add: set_sorted_reverse)
  have mx: "\<forall>f \<in> set listing. size_key f \<le> size_key (hd (sorted_reverse size_key listing))"
    by (simp add: hd_sorted_reverse_max)
  show ?thesis
    using mem mx
    by (simp add: Let_def download_accepted [OF assms(1)] try_body_files [OF assms(2,3)]
        set_sorted_reverse length_sorted_reverse descending_sorted_reverse send_file_def
        split: option.splits)
qed

theorem download_serves_largest_witness:
  "url_accepted env_ok \<and>
   extract_info env_ok (ydl_opts (request_kind env_ok) (outtmpl_in (request_workdir env_ok)))
     (request_url env_ok) = Inr listing_ok \<and>
   sorted_reverse size_key listing_ok =
     [\<lparr>ent_name = py ''song.mp3'', ent_size = Some 700\<rparr>,
      \<lparr>ent_name = py ''cover.jpg'', ent_size = Some 120\<rparr>,
      \<lparr>ent_name = py ''song.webm'', ent_size = None\<rparr>] \<and>
   download env_ok =
     (Attachment (py ''downloads_temp/0000000000000000000000001234abcd/song.mp3'') (py ''song.mp3''),
      [Mkdir workdir_ok,
       ExtractInfo (ydl_opts (py ''audio'') (py ''downloads_temp/0000000000000000000000001234abcd/%(title).100s.%(ext)s''))
         (py ''https://example.com/v''),
       ThreadStart workdir_ok 30,
       SendFile (py ''downloads_temp/0000000000000000000000001234abcd/song.mp3'') (py ''song.mp3'')])"
  using download_serves_largest [of env_ok listing_ok]
  by (simp add: handler_defs env_ok_def workdir_ok_def listing_ok_def Let_def)

text \<open>
  The first entry is not returned for every work directory that holds a file: where
  \<open>send_file\<close> cannot open it, the response is the redirect.
\<close>

theorem download_unservable_redirects:
  "url_accepted env_unservable \<and>
   extract_info env_unservable
     (ydl_opts (request_kind env_unservable) (outtmpl_in (request_workdir env_unservable)))
     (request_url env_unservable) = Inr listing_ok \<and>
   listing_ok \<noteq> [] \<and>
   download env_unservable =
     (Redirect (py ''index''),
      [Mkdir workdir_ok,
       ExtractInfo (ydl_opts (py ''audio'') (py ''downloads_temp/0000000000000000000000001234abcd/%(title).100s.%(ext)s''))
         (py ''https://example.com/v''),
       ThreadStart workdir_ok 30,
       SendFile (py ''downloads_temp/0000000000000000000000001234abcd/song.mp3'') (py ''song.mp3''),
       Flash (py ''Error: [Errno 2] No such file or directory''),
       ThreadStart workdir_ok 5])"
  by (simp add: handler_defs env_unservable_def env_ok_def workdir_ok_def listing_ok_def Let_def)

text \<open>
  Claim C6. The options handed to the extraction tool depend on the format choice and the
  work directory only: two requests that agree on both pass identical options, whatever
  their URLs, the behaviour of the tool or any other part of their environment. Each run
  calls the tool once, with the options \<open>ydl_opts\<close> builds from the two.
\<close>

theorem options_fixed:
  assumes "url_accepted e1" and "url_accepted e2"
    and "request_kind e1 = request_kind e2"
    and "request_workdir e1 = request_workdir e2"
  shows "options_passed (snd (download e1)) = options_passed (snd (download e2)) \<and>
         options_passed (snd (download e1)) =
           [ydl_opts (request_kind e1) (outtmpl_in (request_workdir e1))]"
  using assms by (simp add: options_passed_download)

theorem options_fixed_witness:
  "url_accepted env_ok \<and> url_accepted env_other \<and>
   request_url env_ok \<noteq> request_url env_other \<and>
   request_kind env_ok = request_kind env_other \<and>
   request_workdir env_ok = request_workdir env_other \<and>
   options_passed (snd (download env_ok)) = options_passed (snd (download env_other)) \<and>
   options_passed (snd (download env_ok)) =
     [ydl_opts (py ''audio'')
        (py ''downloads_temp/0000000000000000000000001234abcd/%(title).100s.%(ext)s'')]"
proof -
  have acc: "url_accepted env_ok" "url_accepted env_other"
    by (simp_all add: url_accepted_def request_url_def strip_def startswith_def isspace_def
        py_def env_ok_def env_other_def)
  have same: "request_kind env_ok = request_kind env_other"
    "request_workdir env_ok = request_workdir env_other"
    by (simp_all add: request_kind_def request_workdir_def env_ok_def env_other_def)
  have differ: "request_url env_ok \<noteq> request_url env_other"
    by (simp add: request_url_def strip_def isspace_def py_def env_ok_def env_other_def)
  have vals: "request_kind env_ok = py ''audio''"
    "outtmpl_in (request_workdir env_ok) =
       py ''downloads_temp/0000000000000000000000001234abcd/%(title).100s.%(ext)s''"
    by (simp_all add: request_workdir_def request_kind_def outtmpl_in_def
        py_def BASE_TEMP_def joinpath_def uuid_hex_def hex_digit_def hex_digits_numeral env_ok_def)
  from options_fixed [OF acc same]
  have "options_passed (snd (download env_ok)) = options_passed (snd (download env_other)) \<and>
        options_passed (snd (download env_ok)) =
          [ydl_opts (py ''audio'')
             (py ''downloads_temp/0000000000000000000000001234abcd/%(title).100s.%(ext)s'')]"
    unfolding vals .
  with acc same differ show ?thesis
    by blast
qed




text \<open>
  Claim C10, as the code has it. A run of the handler that creates a work directory
  starts at least one deferred deletion before it returns, and every deletion it starts is
  of that directory. It starts exactly one whenever \<open>send_file\<close> does not raise: with a
  delay of 30 seconds when a file is served, and with a delay of 5 seconds when the
  extraction tool raises or leaves no entry.
\<close>

theorem deletion_scheduled:
  assumes "Mkdir wd \<in> set (snd (download e))"
  shows "wd = request_workdir e \<and>
         (\<exists>d rest. scheduled (snd (download e)) = (wd, d) # rest) \<and>
         (\<forall>(p, d) \<in> set (scheduled (snd (download e))). p = wd) \<and>
         ((\<exists>p n. fst (download e) = Attachment p n) \<longrightarrow>
            scheduled (snd (download e)) = [(wd, 30)]) \<and>
         ((\<exists>x. extract_info e (ydl_opts (request_kind e) (outtmpl_in wd)) (request_url e) = Inl x) \<longrightarrow>
            scheduled (snd (download e)) = [(wd, 5)]) \<and>
         (extract_info e (ydl_opts (request_kind e) (outtmpl_in wd)) (request_url e) = Inr [] \<longrightarrow>
            scheduled (snd (download e)) = [(wd, 5)])"
proof -
  have acc: "url_accepted e" and wd: "wd = request_workdir e"
    using Mkdir_download [OF assms] by simp_all
  have first: "\<exists>d rest. scheduled (snd (download e)) = (request_workdir e, d) # rest"
    using scheduled_download_shape [OF acc] by (elim disjE) simp_all
  have all_wd: "\<forall>(p, d) \<in> set (scheduled (snd (download e))). p = request_workdir e"
    using scheduled_download_shape [OF acc] by (elim disjE) simp_all
  have served: "(\<exists>p n. fst (download e) = Attachment p n) \<longrightarrow>
            scheduled (snd (download e)) = [(request_workdir e, 30)]"
    using scheduled_served [OF acc] by blast
  have tool_failed: "(\<exists>x. extract_info e (ydl_opts (request_kind e) (outtmpl_in (request_workdir e)))
                    (request_url e) = Inl x) \<longrightarrow>
            scheduled (snd (download e)) = [(request_workdir e, 5)]"
  proof
    assume "\<exists>x. extract_info e (ydl_opts (request_kind e) (outtmpl_in (request_workdir e)))
                    (request_url e) = Inl x"
    then obtain x where "extract_info e (ydl_opts (request_kind e) (outtmpl_in (request_workdir e)))
                    (request_url e) = Inl x" ..
    then show "scheduled (snd (download e)) = [(request_workdir e, 5)]"
      by (simp add: scheduled_download [OF acc])
  qed
  have none_found: "extract_info e (ydl_opts (request_kind e) (outtmpl_in (request_workdir e)))
                    (request_url e) = Inr [] \<longrightarrow>
            scheduled (snd (download e)) = [(request_workdir e, 5)]"
    by (simp add: scheduled_download [OF acc])
  from first all_wd served tool_failed none_found
  have "request_workdir e = request_workdir e \<and>
         (\<exists>d rest. scheduled (snd (download e)) = (request_workdir e, d) # rest) \<and>
         (\<forall>(p, d) \<in> set (scheduled (snd (download e))). p = request_workdir e) \<and>
         ((\<exists>p n. fst (download e) = Attachment p n) \<longrightarrow>
            scheduled (snd (download e)) = [(request_workdir e, 30)]) \<and>
         ((\<exists>x. extract_info e (ydl_opts (request_kind e) (outtmpl_in (request_workdir e)))
                 (request_url e) = Inl x) \<longrightarrow>
            scheduled (snd (download e)) = [(request_workdir e, 5)]) \<and>
         (extract_info e (ydl_opts (request_kind e) (outtmpl_in (request_workdir e)))
                 (request_url e) = Inr [] \<longrightarrow>
            scheduled (snd (download e)) = [(request_workdir e, 5)])"
    by (intro conjI refl)
  then show ?thesis
    unfolding wd .
qed

theorem deletion_scheduled_witness:
  "Mkdir workdir_ok \<in> set (snd (download env_ok)) \<and>
   fst (download env_ok) =
     Attachment (py ''downloads_temp/0000000000000000000000001234abcd/song.mp3'') (py ''song.mp3'') \<and>
   scheduled (snd (download env_ok)) = [(workdir_ok, 30)]"
proof -
  have run: "download env_ok =
     (Attachment (py ''downloads_temp/0000000000000000000000001234abcd/song.mp3'') (py ''song.mp3''),
      [Mkdir workdir_ok,
       ExtractInfo (ydl_opts (py ''audio'') (py ''downloads_temp/0000000000000000000000001234abcd/%(title).100s.%(ext)s''))
         (py ''https://example.com/v''),
       ThreadStart workdir_ok 30,
       SendFile (py ''downloads_temp/0000000000000000000000001234abcd/song.mp3'') (py ''song.mp3'')])"
    by (simp add: handler_defs env_ok_def workdir_ok_def listing_ok_def Let_def)
  then have mk: "Mkdir workdir_ok \<in> set (snd (download env_ok))"
    by simp
  from deletion_scheduled [OF mk] run show ?thesis
    by simp
qed

text \<open>
  The claim's "exactly one" fails where \<open>send_file\<close> raises: line 133 has started the
  30-second deletion by then, and the \<open>except\<close> clause starts the 5-second one as well.
\<close>

theorem deletion_scheduled_twice:
  "Mkdir workdir_ok \<in> set (snd (download env_unservable)) \<and>
   fst (download env_unservable) = Redirect (py ''index'') \<and>
   scheduled (snd (download env_unservable)) = [(workdir_ok, 30), (workdir_ok, 5)]"
  by (simp add: handler_defs env_unservable_def env_ok_def workdir_ok_def listing_ok_def Let_def)

text \<open>
  Claim C2, as the code has it. The options handed to the extraction tool are determined
  by the format choice and the work directory: a request whose \<open>kind\<close> field is \<open>audio\<close>
  gets the audio options (format \<open>bestaudio/best\<close>, an \<open>FFmpegExtractAudio\<close>
  post-processor for mp3), a request with any other \<open>kind\<close>, or none, gets the video options
  (format \<open>best[ext=mp4]/best\<close>); in both the output template lies in the request's work
  directory.
\<close>

theorem options_by_kind:
  assumes "url_accepted e"
  shows "options_passed (snd (download e)) =
           [ydl_opts (request_kind e) (outtmpl_in (request_workdir e))] \<and>
         (form e (py ''kind'') = Some (py ''audio'') \<longrightarrow>
            ydl_opts (request_kind e) (outtmpl_in (request_workdir e)) =
              PyDict [
                (py ''format'', PyStr (py ''bestaudio/best'')),
                (py ''outtmpl'', PyStr (outtmpl_in (request_workdir e))),
                (py ''noplaylist'', PyBool True),
                (py ''quiet'', PyBool True),
                (py ''concurrent_fragment_downloads'', PyInt 5),
                (py ''postprocessors'', PyList [PyDict [
                   (py ''key'', PyStr (py ''FFmpegExtractAudio'')),
                   (py ''preferredcodec'', PyStr (py ''mp3'')),
                   (py ''preferredquality'', PyStr (py ''128''))]]),
                (py ''prefer_ffmpeg'', PyBool True)]) \<and>
         (form e (py ''kind'') \<noteq> Some (py ''audio'') \<longrightarrow>
            ydl_opts (request_kind e) (outtmpl_in (request_workdir e)) =
              PyDict [
                (py ''format'', PyStr (py ''best[ext=mp4]/best'')),
                (py ''outtmpl'', PyStr (outtmpl_in (request_workdir e))),
                (py ''noplaylist'', PyBool True),
                (py ''quiet'', PyBool True),
                (py ''concurrent_fragment_downloads'', PyInt 5),
                (py ''merge_output_format'', PyNone),
                (py ''prefer_ffmpeg'', PyBool True)])"
  by (simp add: options_passed_download [OF assms] ydl_opts_def request_kind_audio)

theorem options_by_kind_witness:
  "url_accepted env_ok \<and> form env_ok (py ''kind'') = Some (py ''audio'') \<and>
   options_passed (snd (download env_ok)) =
     [PyDict [
        (py ''format'', PyStr (py ''bestaudio/best'')),
        (py ''outtmpl'', PyStr (py ''downloads_temp/0000000000000000000000001234abcd/%(title).100s.%(ext)s'')),
        (py ''noplaylist'', PyBool True),
        (py ''quiet'', PyBool True),
        (py ''concurrent_fragment_downloads'', PyInt 5),
        (py ''postprocessors'', PyList [PyDict [
           (py ''key'', PyStr (py ''FFmpegExtractAudio'')),
           (py ''preferredcodec'', PyStr (py ''mp3'')),
           (py ''preferredquality'', PyStr (py ''128''))]]),
        (py ''prefer_ffmpeg'', PyBool True)]]"
proof -
  have acc: "url_accepted env_ok"
    by (simp add: url_accepted_def request_url_def strip_def startswith_def isspace_def py_def env_ok_def)
  have kind: "form env_ok (py ''kind'') = Some (py ''audio'')"
    by (simp add: env_ok_def py_def)
  have tmpl: "outtmpl_in (request_workdir env_ok) =
       py ''downloads_temp/0000000000000000000000001234abcd/%(title).100s.%(ext)s''"
    by (simp add: request_workdir_def outtmpl_in_def py_def BASE_TEMP_def joinpath_def
        uuid_hex_def hex_digit_def hex_digits_numeral env_ok_def)
  from options_by_kind [OF acc] kind acc show ?thesis
    unfolding tmpl by simp
qed

text \<open>
  The format choice alone does not determine the options: two requests with the same form
  fields, given different UUIDs, pass options that differ in \<open>outtmpl\<close>.
\<close>

theorem options_vary_with_workdir:
  "url_accepted env_ok \<and> url_accepted (env_ok\<lparr>uuid4 := 0x1234abce\<rparr>) \<and>
   form (env_ok\<lparr>uuid4 := 0x1234abce\<rparr>) = form env_ok \<and>
   options_passed (snd (download (env_ok\<lparr>uuid4 := 0x1234abce\<rparr>))) \<noteq>
     options_passed (snd (download env_ok))"
  by (simp add: handler_defs env_ok_def listing_ok_def Let_def)

section \<open>Properties of the deferred deletion\<close>

text \<open>
  Claim C3, as the code has it. For every path and every delay that \<open>time.sleep\<close> accepts
  (not negative, and no longer than CPython's time type and the operating system allow),
  and provided \<open>path.exists()\<close> does not fail, \<open>cleanup_path\<close> returns without raising,
  whatever filesystem error strikes inside its \<open>try\<close> statement, after the given number of
  seconds has passed. It leaves every path that is not the given one or below it as it was
  after the wait; when the path no longer exists then, it changes nothing. When no
  filesystem error occurs the path does not exist afterwards: a regular file has been
  unlinked, a directory has been removed with all that was below it.
\<close>

theorem cleanup_path_returns:
  assumes "0 \<le> wait_seconds" and "wait_seconds \<le> limit" and "wait_seconds \<le> 9223372036"
    and "flt \<noteq> ExistsFails"
  shows "\<exists>w'. cleanup_path limit flt meanwhile path wait_seconds w = Inr w' \<and>
           now w' = now w + wait_seconds \<and>
           (\<forall>q. \<not> is_under path q \<longrightarrow> files w' q = meanwhile (files w) q) \<and>
           (meanwhile (files w) path = None \<longrightarrow> files w' = meanwhile (files w)) \<and>
           (flt = NoFault \<longrightarrow>
              files w' path = None \<and>
              (\<forall>n. meanwhile (files w) path = Some (File n) \<longrightarrow>
                 files w' = (meanwhile (files w))(path := None)) \<and>
              (meanwhile (files w) path = Some Dir \<longrightarrow>
                 files w' = (\<lambda>q. if is_under path q then None else meanwhile (files w) q)))"
  using assms
  by (auto simp: cleanup_path_def time_sleep_def Let_def path_exists_def is_file_def unlink_def
      rmtree_def is_under_def split: option.splits node.splits fault.splits bool.splits)

theorem cleanup_path_returns_witness:
  "(0::int) \<le> 30 \<and> (30::int) \<le> 86400 \<and> (30::int) \<le> 9223372036 \<and> NoFault \<noteq> ExistsFails \<and>
   (\<exists>w'. cleanup_path 86400 NoFault (\<lambda>fs. fs) workdir_ok 30 world_ok = Inr w' \<and>
      now w' = 30 \<and>
      files w' workdir_ok = None \<and>
      files w' (joinpath workdir_ok (py ''song.mp3'')) = None \<and>
      files w' BASE_TEMP = Some Dir)"
proof -
  have delay: "(0::int) \<le> 30" "(30::int) \<le> 86400" "(30::int) \<le> 9223372036"
    by simp_all
  have flt: "NoFault \<noteq> ExistsFails"
    by simp
  have dir: "files world_ok workdir_ok = Some Dir"
    by (simp add: world_ok_def workdir_ok_def BASE_TEMP_def joinpath_def py_def)
  from cleanup_path_returns [OF delay flt, of "\<lambda>fs. fs" workdir_ok world_ok]
  obtain w' where run: "cleanup_path 86400 NoFault (\<lambda>fs. fs) workdir_ok 30 world_ok = Inr w'"
    and t: "now w' = now world_ok + 30"
    and tree: "files world_ok workdir_ok = Some Dir \<longrightarrow>
                 files w' = (\<lambda>q. if is_under workdir_ok q then None else files world_ok q)"
    by blast
  from tree dir
  have fs: "files w' = (\<lambda>q. if is_under workdir_ok q then None else files world_ok q)"
    by (rule mp)
  have "now w' = 30"
    using t by (simp add: world_ok_def)
  moreover have "files w' workdir_ok = None"
    by (simp add: fs is_under_def)
  moreover have "files w' (joinpath workdir_ok (py ''song.mp3'')) = None"
    by (simp add: fs is_under_def joinpath_def)
  moreover have "files w' BASE_TEMP = Some Dir"
    by (simp add: fs is_under_def world_ok_def workdir_ok_def BASE_TEMP_def joinpath_def py_def)
  ultimately show ?thesis
    using run delay flt by blast
qed

text \<open>
  \<open>cleanup_path\<close> does raise, and deletes nothing, where \<open>time.sleep\<close> or \<open>path.exists()\<close>
  raises, since both are outside the \<open>try\<close> statement: for a negative delay
  (\<open>ValueError\<close>), for a delay beyond the range of the time type (\<open>OverflowError\<close>), for a
  delay the operating system refuses and for a path whose \<open>exists()\<close> fails (\<open>OSError\<close>).
\<close>

theorem cleanup_path_raises:
  "cleanup_path 86400 NoFault (\<lambda>fs. fs) workdir_ok (- 1) world_ok =
     Inl (ValueError (py ''sleep length must be non-negative'')) \<and>
   cleanup_path 86400 NoFault (\<lambda>fs. fs) workdir_ok 100000000000000000000 world_ok =
     Inl (OverflowError (py ''timestamp too large to convert to C _PyTime_t'')) \<and>
   cleanup_path 86400 NoFault (\<lambda>fs. fs) workdir_ok 86401 world_ok =
     Inl (OSError (py ''[Errno 22] Invalid argument'')) \<and>
   cleanup_path 86400 ExistsFails (\<lambda>fs. fs) workdir_ok 30 world_ok =
     Inl (OSError (py ''exists''))"
  by (simp add: cleanup_path_def time_sleep_def path_exists_def)

end
